theory Spec2Isabelle
  imports Main "HOL-Library.Word"
begin

section \<open>The data of the application shell\<close>

text \<open>
  The values that \<^verbatim>\<open>json.load\<close> hands to the program: \<^verbatim>\<open>None\<close>, booleans, integers,
  floats (opaque 64-bit patterns, the program never computes with them), strings, lists
  and dictionaries with string keys. The window attributes of the application hold such
  values, so the same type serves for them.
\<close>

datatype json =
    JNull
  | JBool bool
  | JInt int
  | JFloat "64 word"
  | JStr string
  | JArr "json list"
  | JObj "string \<Rightarrow> json option"

text \<open>The exceptions that the code of this file raises or lets through.\<close>

datatype error =
    IOError
  | ValueError "string list"
  | KeyError json
  | TypeError
  | IndexError
  | RuntimeError
  | SystemExit

text \<open>
  Objects of the collaborating libraries (widgets, the game controller) are held by
  reference. The display surface is known by the size argument it was opened with.
\<close>

type_synonym ref = nat

datatype surface = Surface json

text \<open>
  The types of the events of \<^verbatim>\<open>pygame.event.get()\<close>: the three that
  \<^verbatim>\<open>process_events\<close> compares with, and every other type by its number.
\<close>

datatype event_type = QUIT | MOUSEBUTTONUP | MOUSEBUTTONDOWN | OtherEvent nat

text \<open>
  The calls that leave this file, in program order: to pygame, to the widgets of the
  \<^verbatim>\<open>gui\<close> module, to the game controller, to the thread library and to standard output.
  What the callee does inside is not part of this file; the call is recorded.
\<close>

datatype call =
    PygameInit
  | FontInit
  | SetCaption json
  | SetMode json
  | SurfaceFill json
  | ClockNew
  | ClockTick nat
  | DrawRect json "json list"
  | DisplayFlip
  | RenderObjects ref
  | ExecuteGame ref
  | WidgetRender ref
  | Print string
  | ThreadStart
  | ThreadJoin

text \<open>
  Where the render thread stands: not yet started, at one of the four statement
  boundaries of the loop of \<^verbatim>\<open>RenderThread.run\<close>, or finished.
\<close>

datatype position = LoopTest | BeforeTick | BeforeRender | BeforeFlip

datatype thread_state = NotStarted | Running position | Finished

record GuiInterface =
  gui_json :: json
  gui_screen :: "surface option"
  gui_list :: "ref list"

text \<open>
  The application object together with what it shares with its surroundings: the module
  global \<^verbatim>\<open>globals.settings_json\<close>, the \<^verbatim>\<open>expired\<close> attribute of every widget
  (\<open>None\<close> where a widget has no such attribute) and the calls made so far.
  The attribute \<^verbatim>\<open>size\<close> is \<open>size_attr\<close> here.
\<close>

record GameApp =
  title :: json
  background_color :: json
  size_attr :: json
  screen :: "surface option"
  render_thread :: thread_state
  stopped :: bool
  gui_interface :: "GuiInterface option"
  game_controller :: "ref option"
  settings_json :: json
  widget_expired :: "ref \<Rightarrow> bool option"
  trace :: "call list"

text \<open>
  A statement either completes (\<open>None\<close>) or raises (\<open>Some e\<close>); the state it leaves
  behind is kept in both cases.
\<close>

type_synonym outcome = "error option \<times> GameApp"

text \<open>
  The three abstract methods of \<^verbatim>\<open>GameApp\<close>. A concrete game supplies them; they may
  read and write the whole application and may raise.
\<close>

record hooks =
  load_game_settings_from_json :: "GameApp \<Rightarrow> outcome"
  process_mouse_event :: "bool \<Rightarrow> GameApp \<Rightarrow> outcome"
  build_game_objects :: "GameApp \<Rightarrow> outcome"

section \<open>Subscripting\<close>

text \<open>Python's \<^verbatim>\<open>v[k]\<close> for a string key \<open>k\<close>: only a dictionary accepts it.\<close>

definition getitem_str :: "json \<Rightarrow> string \<Rightarrow> error + json" where
  "getitem_str v k =
     (case v of
        JObj m \<Rightarrow> (case m k of None \<Rightarrow> Inl (KeyError (JStr k)) | Some x \<Rightarrow> Inr x)
      | _ \<Rightarrow> Inl TypeError)"

text \<open>
  Python's \<^verbatim>\<open>v[i]\<close> for a non-negative integer literal \<open>i\<close>: lists and strings are
  indexed, a dictionary of string keys has no such key, anything else is not
  subscriptable.
\<close>

definition getitem_int :: "json \<Rightarrow> nat \<Rightarrow> error + json" where
  "getitem_int v i =
     (case v of
        JArr xs \<Rightarrow> (if i < length xs then Inr (xs ! i) else Inl IndexError)
      | JStr cs \<Rightarrow> (if i < length cs then Inr (JStr [cs ! i]) else Inl IndexError)
      | JObj m \<Rightarrow> Inl (KeyError (JInt (int i)))
      | _ \<Rightarrow> Inl TypeError)"

definition emit :: "call list \<Rightarrow> GameApp \<Rightarrow> GameApp" where
  "emit cs s = s\<lparr>trace := trace s @ cs\<rparr>"

section \<open>GameApp.GuiInterface\<close>

text \<open>\<^verbatim>\<open>hide_button\<close>: the body is \<^verbatim>\<open>pass\<close>.\<close>

definition hide_button :: "GameApp \<Rightarrow> outcome" where
  "hide_button s = (None, s)"

text \<open>
  \<^verbatim>\<open>GuiInterface.render\<close>. The \<^verbatim>\<open>for\<close> loop over a Python list keeps an index and
  compares it with the current length of the list before every step, so the loop is
  modelled with its index \<open>i\<close>, the list as it is at that moment and the calls made.
  \<^verbatim>\<open>list.remove\<close> deletes the first occurrence.
\<close>

function render_from :: "(ref \<Rightarrow> bool option) \<Rightarrow> nat \<Rightarrow> ref list \<Rightarrow> call list \<Rightarrow> ref list \<times> call list" where
  "render_from ex i xs out =
     (if i < length xs then
        (let g = xs ! i in
           if ex g = Some True
           then render_from ex (Suc i) (remove1 g xs) (out @ [Print ''removing g from gui_list''])
           else render_from ex (Suc i) xs (out @ [WidgetRender g]))
      else (xs, out))"
  by pat_completeness auto
termination
  by (relation "measure (\<lambda>(ex, i, xs, out). length xs - i)") (auto simp: length_remove1)

declare render_from.simps [simp del]

definition GuiInterface_render :: "(ref \<Rightarrow> bool option) \<Rightarrow> GuiInterface \<Rightarrow> GuiInterface \<times> call list" where
  "GuiInterface_render ex g =
     (case render_from ex 0 (gui_list g) [] of (xs, out) \<Rightarrow> (g\<lparr>gui_list := xs\<rparr>, out))"

section \<open>GameApp\<close>

text \<open>
  \<^verbatim>\<open>load_json\<close>: \<open>files\<close> gives the text of every file that can be opened, \<open>json_load\<close>
  is the parser of the \<^verbatim>\<open>json\<close> module; an error of either goes to the caller.
\<close>

definition load_json :: "(string \<Rightarrow> string option) \<Rightarrow> (string \<Rightarrow> error + json) \<Rightarrow> string \<Rightarrow> error + json" where
  "load_json files json_load path =
     (case files path of None \<Rightarrow> Inl IOError | Some txt \<Rightarrow> json_load txt)"

text \<open>\<^verbatim>\<open>globals.settings_json["window"][k]\<close>\<close>

definition window_setting :: "GameApp \<Rightarrow> string \<Rightarrow> error + json" where
  "window_setting s k =
     (case getitem_str (settings_json s) ''window'' of
        Inl e \<Rightarrow> Inl e
      | Inr w \<Rightarrow> getitem_str w k)"

definition load_settings_from_json :: "hooks \<Rightarrow> GameApp \<Rightarrow> outcome" where
  "load_settings_from_json h s =
     (case window_setting s ''title'' of
        Inl e \<Rightarrow> (Some e, s)
      | Inr t \<Rightarrow>
         (let s1 = s\<lparr>title := t\<rparr> in
          case window_setting s1 ''background_color'' of
            Inl e \<Rightarrow> (Some e, s1)
          | Inr c \<Rightarrow>
             (let s2 = s1\<lparr>background_color := c\<rparr> in
              case window_setting s2 ''size'' of
                Inl e \<Rightarrow> (Some e, s2)
              | Inr z \<Rightarrow> load_game_settings_from_json h (s2\<lparr>size_attr := z\<rparr>))))"

text \<open>
  \<^verbatim>\<open>GameApp.__init__\<close>, run on the state \<open>s\<close> in which the new object has no attribute
  yet.
\<close>

definition GameApp_init :: "hooks \<Rightarrow> (string \<Rightarrow> string option) \<Rightarrow> (string \<Rightarrow> error + json) \<Rightarrow> string \<Rightarrow> GameApp \<Rightarrow> outcome" where
  "GameApp_init h files json_load json_name s =
     (let s1 = s\<lparr>title := JNull, background_color := JNull, size_attr := JNull\<rparr> in
      case load_json files json_load json_name of
        Inl e \<Rightarrow> (Some e, s1)
      | Inr doc \<Rightarrow>
         (let s2 = s1\<lparr>settings_json := doc\<rparr> in
          case doc of
            JNull \<Rightarrow> (Some (ValueError [''settings json file is not loaded'', ''GameApp.__init__'']), s2)
          | _ \<Rightarrow>
             (case load_settings_from_json h s2 of
                (Some e, s3) \<Rightarrow> (Some e, s3)
              | (None, s3) \<Rightarrow>
                 (let s4 = emit [PygameInit, FontInit, SetCaption (title s3), SetMode (size_attr s3)] s3;
                      s5 = s4\<lparr>screen := Some (Surface (size_attr s4))\<rparr>;
                      s6 = emit [SurfaceFill (background_color s5), ClockNew] s5
                  in (None, s6\<lparr>render_thread := NotStarted, stopped := False,
                                gui_interface := None, game_controller := None\<rparr>)))))"

definition init_gui :: "GameApp \<Rightarrow> outcome" where
  "init_gui s =
     (case getitem_str (settings_json s) ''gui'' of
        Inl e \<Rightarrow> (Some e, s)
      | Inr g \<Rightarrow> (None, s\<lparr>gui_interface := Some \<lparr>gui_json = g, gui_screen = screen s, gui_list = []\<rparr>\<rparr>))"

definition init_game :: "hooks \<Rightarrow> GameApp \<Rightarrow> outcome" where
  "init_game h s =
     (case init_gui s of
        (Some e, s1) \<Rightarrow> (Some e, s1)
      | (None, s1) \<Rightarrow> build_game_objects h s1)"

text \<open>\<^verbatim>\<open>GameApp.render\<close>\<close>

definition render :: "GameApp \<Rightarrow> outcome" where
  "render s =
     (case getitem_int (size_attr s) 0 of
        Inl e \<Rightarrow> (Some e, s)
      | Inr w \<Rightarrow>
         (case getitem_int (size_attr s) 1 of
            Inl e \<Rightarrow> (Some e, s)
          | Inr h \<Rightarrow>
             (let s1 = emit [DrawRect (background_color s) [JInt 0, JInt 0, w, h]] s;
                  s2 = (case game_controller s1 of
                          None \<Rightarrow> s1
                        | Some c \<Rightarrow> emit [RenderObjects c] s1)
              in case gui_interface s2 of
                   None \<Rightarrow> (None, s2)
                 | Some g \<Rightarrow>
                    (case GuiInterface_render (widget_expired s2) g of
                       (g', out) \<Rightarrow> (None, (emit out s2)\<lparr>gui_interface := Some g'\<rparr>)))))"

definition execute_game_logic :: "GameApp \<Rightarrow> outcome" where
  "execute_game_logic s =
     (case game_controller s of
        None \<Rightarrow> (None, s)
      | Some c \<Rightarrow> (None, emit [ExecuteGame c] s))"

section \<open>RenderThread\<close>

text \<open>One pass through the body of the loop of \<^verbatim>\<open>RenderThread.run\<close>.\<close>

definition flip :: "GameApp \<Rightarrow> outcome" where
  "flip s = (None, emit [DisplayFlip] s)"

definition render_then_flip :: "GameApp \<Rightarrow> outcome" where
  "render_then_flip s =
     (case render s of
        (Some e, s1) \<Rightarrow> (Some e, s1)
      | (None, s1) \<Rightarrow> flip s1)"

definition loop_body :: "GameApp \<Rightarrow> outcome" where
  "loop_body s = render_then_flip (emit [ClockTick 300] s)"

text \<open>
  \<^verbatim>\<open>RenderThread.run\<close>: the loop ends when the flag is seen set, or when the body
  raises, which ends the thread. With the flag never set it does not end, hence the
  option.
\<close>

partial_function (option) RenderThread_run :: "GameApp \<Rightarrow> GameApp option" where
  "RenderThread_run s =
     (if stopped s then Some s
      else (case loop_body s of
              (Some e, s1) \<Rightarrow> Some s1
            | (None, s1) \<Rightarrow> RenderThread_run s1))"

text \<open>What is left of the current pass through the loop body at a given position.\<close>

definition rest_of_iteration :: "position \<Rightarrow> GameApp \<Rightarrow> outcome" where
  "rest_of_iteration p s =
     (case p of
        LoopTest \<Rightarrow> (None, s)
      | BeforeTick \<Rightarrow> loop_body s
      | BeforeRender \<Rightarrow> render_then_flip s
      | BeforeFlip \<Rightarrow> flip s)"

text \<open>
  \<^verbatim>\<open>Thread.start\<close> and \<^verbatim>\<open>Thread.join\<close>. A thread is started once; joining a thread that
  was never started raises. While the caller of \<^verbatim>\<open>join\<close> waits, only the render thread
  runs: it finishes its pass and goes on with its loop.
\<close>

definition start_render_thread :: "GameApp \<Rightarrow> outcome" where
  "start_render_thread s =
     (case render_thread s of
        NotStarted \<Rightarrow> (None, (emit [ThreadStart] s)\<lparr>render_thread := Running LoopTest\<rparr>)
      | _ \<Rightarrow> (Some RuntimeError, s))"

definition join :: "GameApp \<Rightarrow> outcome option" where
  "join s =
     (case render_thread s of
        NotStarted \<Rightarrow> Some (Some RuntimeError, s)
      | Finished \<Rightarrow> Some (None, emit [ThreadJoin] s)
      | Running p \<Rightarrow>
         (case rest_of_iteration p (emit [ThreadJoin] s) of
            (Some e, s1) \<Rightarrow> Some (None, s1\<lparr>render_thread := Finished\<rparr>)
          | (None, s1) \<Rightarrow>
             (case RenderThread_run s1 of
                None \<Rightarrow> None
              | Some s2 \<Rightarrow> Some (None, s2\<lparr>render_thread := Finished\<rparr>))))"

section \<open>The main loop\<close>

text \<open>
  \<^verbatim>\<open>process_events\<close> on the events that \<^verbatim>\<open>pygame.event.get()\<close> returned.
  \<^verbatim>\<open>sys.exit()\<close> raises \<^verbatim>\<open>SystemExit\<close>.
\<close>

fun process_events :: "hooks \<Rightarrow> event_type list \<Rightarrow> GameApp \<Rightarrow> outcome option" where
  "process_events h [] s = Some (None, s)"
| "process_events h (ev # evs) s =
     (if ev = QUIT then
        (case join (s\<lparr>stopped := True\<rparr>) of
           None \<Rightarrow> None
         | Some (Some e, s1) \<Rightarrow> Some (Some e, s1)
         | Some (None, s1) \<Rightarrow> Some (Some SystemExit, s1))
      else if ev = MOUSEBUTTONUP then
        (case process_mouse_event h False s of
           (Some e, s1) \<Rightarrow> Some (Some e, s1)
         | (None, s1) \<Rightarrow> process_events h evs s1)
      else if ev = MOUSEBUTTONDOWN then
        (case process_mouse_event h True s of
           (Some e, s1) \<Rightarrow> Some (Some e, s1)
         | (None, s1) \<Rightarrow> process_events h evs s1)
      else process_events h evs s)"

declare process_events.simps(2) [simp del]

text \<open>
  \<^verbatim>\<open>run_game_loop\<close>: \<open>events n\<close> are the events that the \<open>n\<close>-th call of
  \<^verbatim>\<open>pygame.event.get()\<close> returns.
\<close>

partial_function (option) run_game_loop :: "hooks \<Rightarrow> (nat \<Rightarrow> event_type list) \<Rightarrow> nat \<Rightarrow> GameApp \<Rightarrow> outcome option" where
  "run_game_loop h events n s =
     (case process_events h (events n) (emit [ClockTick 60] s) of
        None \<Rightarrow> None
      | Some (Some e, s1) \<Rightarrow> Some (Some e, s1)
      | Some (None, s1) \<Rightarrow>
         (case execute_game_logic s1 of
            (Some e, s2) \<Rightarrow> Some (Some e, s2)
          | (None, s2) \<Rightarrow> run_game_loop h events (Suc n) s2))"

definition execute :: "hooks \<Rightarrow> (nat \<Rightarrow> event_type list) \<Rightarrow> GameApp \<Rightarrow> outcome option" where
  "execute h events s =
     (case init_game h s of
        (Some e, s1) \<Rightarrow> Some (Some e, s1)
      | (None, s1) \<Rightarrow>
         (case start_render_thread s1 of
            (Some e, s2) \<Rightarrow> Some (Some e, s2)
          | (None, s2) \<Rightarrow> run_game_loop h events 0 s2))"

section \<open>Sample data\<close>

text \<open>A game that does nothing in its three methods, and a settings document.\<close>

definition no_hooks :: hooks where
  "no_hooks = \<lparr>load_game_settings_from_json = (\<lambda>s. (None, s)),
               process_mouse_event = (\<lambda>down s. (None, s)),
               build_game_objects = (\<lambda>s. (None, s))\<rparr>"

definition blank_app :: GameApp where
  "blank_app = \<lparr>title = JNull, background_color = JNull, size_attr = JNull, screen = None,
                render_thread = NotStarted, stopped = False, gui_interface = None,
                game_controller = None, settings_json = JNull,
                widget_expired = (\<lambda>w. None), trace = []\<rparr>"

definition sample_window :: "string \<Rightarrow> json option" where
  "sample_window = [''title'' \<mapsto> JStr ''Cards'',
                    ''background_color'' \<mapsto> JArr [JInt 0, JInt 128, JInt 0],
                    ''size'' \<mapsto> JArr [JInt 800, JInt 600]]"

definition sample_settings :: "string \<Rightarrow> json option" where
  "sample_settings = [''window'' \<mapsto> JObj sample_window, ''gui'' \<mapsto> JObj Map.empty]"

definition settings_without_window :: "string \<Rightarrow> json option" where
  "settings_without_window = [''gui'' \<mapsto> JObj Map.empty]"

definition one_file :: "string \<Rightarrow> string option" where
  "one_file path = (if path = ''settings.json'' then Some ''(text of settings.json)'' else None)"

definition constructed_app :: GameApp where
  "constructed_app =
     blank_app\<lparr>title := JStr ''Cards'', background_color := JArr [JInt 0, JInt 128, JInt 0],
       size_attr := JArr [JInt 800, JInt 600],
       screen := Some (Surface (JArr [JInt 800, JInt 600])),
       settings_json := JObj sample_settings\<rparr>"

definition running_app :: GameApp where
  "running_app = constructed_app\<lparr>render_thread := Running BeforeRender\<rparr>"

definition playing_app :: GameApp where
  "playing_app =
     running_app\<lparr>game_controller := Some 7,
       gui_interface := Some \<lparr>gui_json = JObj Map.empty,
                                gui_screen = Some (Surface (JArr [JInt 800, JInt 600])),
                                gui_list = [3]\<rparr>\<rparr>"

section \<open>The render pass of the GUI interface\<close>

text \<open>
  Every call of a render pass is appended to the calls made before, and is a widget's
  \<^verbatim>\<open>render\<close> or the message of a removal: never a clock tick or a flip of the display.
\<close>

lemma render_from_appends:
  "\<exists>more. snd (render_from ex i xs out) = out @ more
      \<and> DisplayFlip \<notin> set more \<and> ClockTick 300 \<notin> set more"
proof (induction ex i xs out rule: render_from.induct)
  case (1 ex i xs out)
  show ?case
  proof (cases "i < length xs")
    case False
    then show ?thesis by (subst render_from.simps) simp
  next
    case True
    show ?thesis
    proof (cases "ex (xs ! i) = Some True")
      case yes: True
      from "1.IH"(1)[OF True refl yes] obtain more where
        m: "snd (render_from ex (Suc i) (remove1 (xs ! i) xs)
                  (out @ [Print ''removing g from gui_list'']))
            = (out @ [Print ''removing g from gui_list'']) @ more"
           "DisplayFlip \<notin> set more" "ClockTick 300 \<notin> set more"
        by blast
      have "snd (render_from ex i xs out) = out @ (Print ''removing g from gui_list'' # more)"
        using True yes m(1) by (subst render_from.simps) simp
      then show ?thesis
        using m(2,3) by (intro exI[of _ "Print ''removing g from gui_list'' # more"]) simp
    next
      case no: False
      from "1.IH"(2)[OF True refl no] obtain more where
        m: "snd (render_from ex (Suc i) xs (out @ [WidgetRender (xs ! i)]))
            = (out @ [WidgetRender (xs ! i)]) @ more"
           "DisplayFlip \<notin> set more" "ClockTick 300 \<notin> set more"
        by blast
      have "snd (render_from ex i xs out) = out @ (WidgetRender (xs ! i) # more)"
        using True no m(1) by (subst render_from.simps) simp
      then show ?thesis
        using m(2,3) by (intro exI[of _ "WidgetRender (xs ! i) # more"]) simp
    qed
  qed
qed

lemma GuiInterface_render_calls:
  "GuiInterface_render ex g = (g', out) \<Longrightarrow> DisplayFlip \<notin> set out \<and> ClockTick 300 \<notin> set out"
  using render_from_appends[of ex 0 "gui_list g" "[]"]
  by (auto simp: GuiInterface_render_def split: prod.splits)

text \<open>A widget that a pass draws is not expired: the pass never draws an expired widget.\<close>

lemma render_from_never_draws_expired:
  "render_from ex i xs out = (ys, out') \<Longrightarrow> WidgetRender w \<in> set out'
     \<Longrightarrow> WidgetRender w \<notin> set out \<Longrightarrow> ex w \<noteq> Some True"
proof (induction ex i xs out rule: render_from.induct)
  case (1 ex i xs out)
  then show ?case
    by (subst (asm) (3) render_from.simps) (auto simp: Let_def split: if_splits)
qed

text \<open>
  C1. The claim: a render pass removes every expired widget from the list and draws
  every widget that is not expired. The code deletes from the list that its loop is
  walking through, so the widget behind a removed one moves into the position just
  visited and the pass ends or goes on without it. With the list \<open>[0, 1]\<close>, widget 0
  expired: widget 1, not expired, is not drawn by the pass. With both expired: widget 1
  is still in the list after the pass.
\<close>

theorem GuiInterface_render_skips_after_removal:
  "GuiInterface_render (\<lambda>w. if w = 0 then Some True else Some False)
       \<lparr>gui_json = JNull, gui_screen = None, gui_list = [0, 1]\<rparr>
     = (\<lparr>gui_json = JNull, gui_screen = None, gui_list = [1]\<rparr>,
        [Print ''removing g from gui_list''])
   \<and> GuiInterface_render (\<lambda>w. Some True)
       \<lparr>gui_json = JNull, gui_screen = None, gui_list = [0, 1]\<rparr>
     = (\<lparr>gui_json = JNull, gui_screen = None, gui_list = [1]\<rparr>,
        [Print ''removing g from gui_list''])"
  by (simp add: GuiInterface_render_def render_from.simps)

text \<open>
  C8. \<^verbatim>\<open>hide_button\<close> completes and leaves the element list, the GUI interface and
  the application as they were.
\<close>

theorem hide_button_changes_nothing: "hide_button s = (None, s)"
  by (simp add: hide_button_def)

section \<open>GameApp.render and the render thread\<close>

lemma render_eq:
  assumes "getitem_int (size_attr s) 0 = Inr w" and "getitem_int (size_attr s) 1 = Inr ht"
  shows "render s =
     (None, s\<lparr>trace := trace s @ [DrawRect (background_color s) [JInt 0, JInt 0, w, ht]]
                 @ (case game_controller s of None \<Rightarrow> [] | Some c \<Rightarrow> [RenderObjects c])
                 @ (case gui_interface s of
                      None \<Rightarrow> []
                    | Some g \<Rightarrow> snd (GuiInterface_render (widget_expired s) g)),
              gui_interface :=
                map_option (\<lambda>g. fst (GuiInterface_render (widget_expired s) g)) (gui_interface s)\<rparr>)"
  using assms
  by (simp add: render_def emit_def Let_def split: option.splits prod.splits)

lemma render_stopped: "stopped (snd (render s)) = stopped s"
  by (simp add: render_def emit_def Let_def split: sum.splits option.splits prod.splits)

lemma render_trace:
  "\<exists>calls. trace (snd (render s)) = trace s @ calls
      \<and> DisplayFlip \<notin> set calls \<and> ClockTick 300 \<notin> set calls"
  by (auto simp add: render_def emit_def Let_def split: sum.splits option.splits prod.splits
           dest: GuiInterface_render_calls)

lemma render_then_flip_stopped: "stopped (snd (render_then_flip s)) = stopped s"
  using render_stopped[of s]
  by (cases "render s") (auto simp: render_then_flip_def flip_def emit_def split: option.splits)

lemma render_then_flip_trace:
  "\<exists>calls. trace (snd (render_then_flip s)) = trace s @ calls
      \<and> count_list calls DisplayFlip \<le> 1 \<and> ClockTick 300 \<notin> set calls"
proof -
  obtain calls where c: "trace (snd (render s)) = trace s @ calls"
      "DisplayFlip \<notin> set calls" "ClockTick 300 \<notin> set calls"
    using render_trace by blast
  show ?thesis
  proof (cases "fst (render s)")
    case None
    then have "trace (snd (render_then_flip s)) = trace s @ (calls @ [DisplayFlip])"
      using c(1) by (cases "render s") (simp add: render_then_flip_def flip_def emit_def)
    moreover have "count_list (calls @ [DisplayFlip]) DisplayFlip \<le> 1"
      using c(2) by (simp add: count_list_0_iff)
    moreover have "ClockTick 300 \<notin> set (calls @ [DisplayFlip])"
      using c(3) by simp
    ultimately show ?thesis by blast
  next
    case (Some e)
    then have "trace (snd (render_then_flip s)) = trace s @ calls"
      using c(1) by (cases "render s") (simp add: render_then_flip_def)
    moreover have "count_list calls DisplayFlip \<le> 1"
      using c(2) by (simp add: count_list_0_iff)
    ultimately show ?thesis using c(3) by blast
  qed
qed

lemma rest_of_iteration_stopped: "stopped (snd (rest_of_iteration p s)) = stopped s"
  using render_then_flip_stopped[of s] render_then_flip_stopped[of "emit [ClockTick 300] s"]
  by (cases p) (simp_all add: rest_of_iteration_def loop_body_def flip_def emit_def)

lemma rest_of_iteration_trace:
  "\<exists>calls. trace (snd (rest_of_iteration p s)) = trace s @ calls
      \<and> count_list calls DisplayFlip \<le> 1 \<and> count_list calls (ClockTick 300) \<le> 1"
proof (cases p)
  case LoopTest
  then have "trace (snd (rest_of_iteration p s)) = trace s @ []"
    by (simp add: rest_of_iteration_def)
  then show ?thesis by (intro exI[of _ "[]"]) simp
next
  case BeforeTick
  obtain calls where c:
      "trace (snd (render_then_flip (emit [ClockTick 300] s)))
         = trace (emit [ClockTick 300] s) @ calls"
      "count_list calls DisplayFlip \<le> 1" "ClockTick 300 \<notin> set calls"
    using render_then_flip_trace by blast
  have "trace (snd (rest_of_iteration p s)) = trace s @ (ClockTick 300 # calls)"
    using BeforeTick c(1) by (simp add: rest_of_iteration_def loop_body_def emit_def)
  moreover have "count_list (ClockTick 300 # calls) DisplayFlip \<le> 1"
    using c(2) by simp
  moreover have "count_list (ClockTick 300 # calls) (ClockTick 300) \<le> 1"
    using c(3) by (simp add: count_list_0_iff)
  ultimately show ?thesis by blast
next
  case BeforeRender
  obtain calls where c: "trace (snd (render_then_flip s)) = trace s @ calls"
      "count_list calls DisplayFlip \<le> 1" "ClockTick 300 \<notin> set calls"
    using render_then_flip_trace by blast
  have "trace (snd (rest_of_iteration p s)) = trace s @ calls"
    using BeforeRender c(1) by (simp add: rest_of_iteration_def)
  moreover have "count_list calls (ClockTick 300) \<le> 1"
    using c(3) by (simp add: count_list_0_iff)
  ultimately show ?thesis using c(2) by blast
next
  case BeforeFlip
  then have "trace (snd (rest_of_iteration p s)) = trace s @ [DisplayFlip]"
    by (simp add: rest_of_iteration_def flip_def emit_def)
  then show ?thesis by (intro exI[of _ "[DisplayFlip]"]) simp
qed

lemma RenderThread_run_stopped: "stopped s \<Longrightarrow> RenderThread_run s = Some s"
  by (subst RenderThread_run.simps) simp

text \<open>
  C7. Where the two components of the window size can be read, one pass through the
  loop body of the render thread completes and makes, after the tick of the clock, these
  calls in this order: the rectangle from (0, 0) over the whole size in the background
  colour, the drawing of the game controller if there is one, the render pass of the GUI
  interface if there is one, the flip of the display. And the loop of the thread is the
  test of the flag followed by such a pass and the loop again.
\<close>

theorem render_iteration_order:
  assumes "getitem_int (size_attr s) 0 = Inr w" and "getitem_int (size_attr s) 1 = Inr ht"
  shows "loop_body s =
     (None, s\<lparr>trace := trace s
                 @ [ClockTick 300, DrawRect (background_color s) [JInt 0, JInt 0, w, ht]]
                 @ (case game_controller s of None \<Rightarrow> [] | Some c \<Rightarrow> [RenderObjects c])
                 @ (case gui_interface s of
                      None \<Rightarrow> []
                    | Some g \<Rightarrow> snd (GuiInterface_render (widget_expired s) g))
                 @ [DisplayFlip],
              gui_interface :=
                map_option (\<lambda>g. fst (GuiInterface_render (widget_expired s) g)) (gui_interface s)\<rparr>)
     \<and> RenderThread_run s = (if stopped s then Some s else RenderThread_run (snd (loop_body s)))"
proof -
  let ?t = "emit [ClockTick 300] s"
  have r: "render ?t =
     (None, ?t\<lparr>trace := trace ?t @ [DrawRect (background_color s) [JInt 0, JInt 0, w, ht]]
                 @ (case game_controller s of None \<Rightarrow> [] | Some c \<Rightarrow> [RenderObjects c])
                 @ (case gui_interface s of
                      None \<Rightarrow> []
                    | Some g \<Rightarrow> snd (GuiInterface_render (widget_expired s) g)),
              gui_interface :=
                map_option (\<lambda>g. fst (GuiInterface_render (widget_expired s) g)) (gui_interface s)\<rparr>)"
    using render_eq[of ?t w ht] assms
    by (cases "gui_interface s") (simp_all add: emit_def)
  have a: "loop_body s =
     (None, s\<lparr>trace := trace s
                 @ [ClockTick 300, DrawRect (background_color s) [JInt 0, JInt 0, w, ht]]
                 @ (case game_controller s of None \<Rightarrow> [] | Some c \<Rightarrow> [RenderObjects c])
                 @ (case gui_interface s of
                      None \<Rightarrow> []
                    | Some g \<Rightarrow> snd (GuiInterface_render (widget_expired s) g))
                 @ [DisplayFlip],
              gui_interface :=
                map_option (\<lambda>g. fst (GuiInterface_render (widget_expired s) g)) (gui_interface s)\<rparr>)"
    by (simp add: loop_body_def render_then_flip_def r flip_def) (simp add: emit_def)
  have b: "RenderThread_run s = (if stopped s then Some s else RenderThread_run (snd (loop_body s)))"
    by (subst RenderThread_run.simps) (simp add: a)
  from a b show ?thesis by blast
qed

theorem render_iteration_order_witness:
  "getitem_int (size_attr playing_app) 0 = Inr (JInt 800)
   \<and> getitem_int (size_attr playing_app) 1 = Inr (JInt 600)
   \<and> fst (loop_body playing_app) = None
   \<and> trace (snd (loop_body playing_app)) =
       [ClockTick 300,
        DrawRect (JArr [JInt 0, JInt 128, JInt 0]) [JInt 0, JInt 0, JInt 800, JInt 600],
        RenderObjects 7, WidgetRender 3, DisplayFlip]"
proof -
  have w: "getitem_int (size_attr playing_app) 0 = Inr (JInt 800)"
    by (simp add: playing_app_def running_app_def constructed_app_def blank_app_def getitem_int_def)
  have h: "getitem_int (size_attr playing_app) 1 = Inr (JInt 600)"
    by (simp add: playing_app_def running_app_def constructed_app_def blank_app_def getitem_int_def)
  from render_iteration_order[OF w h] show ?thesis
    using w h
    by (simp add: playing_app_def running_app_def constructed_app_def blank_app_def
          GuiInterface_render_def render_from.simps)
qed

section \<open>The quit event\<close>

lemma join_when_stopped:
  assumes "stopped s" and "render_thread s \<noteq> NotStarted"
  shows "join s = Some (None,
     (case render_thread s of
        Running p \<Rightarrow> snd (rest_of_iteration p (emit [ThreadJoin] s))
      | _ \<Rightarrow> emit [ThreadJoin] s)\<lparr>render_thread := Finished\<rparr>)"
proof (cases "render_thread s")
  case NotStarted
  with assms(2) show ?thesis by simp
next
  case Finished
  then show ?thesis by (simp add: join_def emit_def)
next
  case (Running p)
  let ?r = "rest_of_iteration p (emit [ThreadJoin] s)"
  have st: "stopped (snd ?r)"
    using assms(1) by (simp add: rest_of_iteration_stopped emit_def)
  show ?thesis
  proof (cases "fst ?r")
    case None
    then show ?thesis
      using Running RenderThread_run_stopped[OF st]
      by (cases ?r) (simp add: join_def)
  next
    case (Some e)
    then show ?thesis
      using Running by (cases ?r) (simp add: join_def)
  qed
qed

text \<open>
  C2. When the loop of \<^verbatim>\<open>process_events\<close> comes to a quit event and the render thread
  has been started, the flag is set, the thread is joined and \<^verbatim>\<open>SystemExit\<close> is raised,
  in this order: the thread, wherever it stands, performs what is left of its current
  pass with the flag already set and then ends at its next test of the flag, so it has
  finished when \<^verbatim>\<open>SystemExit\<close> is raised, and between the join and the exit it ticks its
  clock at most once and flips the display at most once.
\<close>

theorem quit_sets_flag_joins_then_exits:
  assumes "render_thread s \<noteq> NotStarted"
  shows "let s0 = emit [ThreadJoin] (s\<lparr>stopped := True\<rparr>);
             s' = (case render_thread s of
                     Running p \<Rightarrow> snd (rest_of_iteration p s0)
                   | _ \<Rightarrow> s0)\<lparr>render_thread := Finished\<rparr>
         in process_events h (QUIT # evs) s = Some (Some SystemExit, s')
            \<and> stopped s'
            \<and> (\<exists>calls. trace s' = trace s @ ThreadJoin # calls
                  \<and> count_list calls DisplayFlip \<le> 1
                  \<and> count_list calls (ClockTick 300) \<le> 1)"
proof -
  let ?s0 = "emit [ThreadJoin] (s\<lparr>stopped := True\<rparr>)"
  let ?s' = "(case render_thread s of
                Running p \<Rightarrow> snd (rest_of_iteration p ?s0)
              | _ \<Rightarrow> ?s0)\<lparr>render_thread := Finished\<rparr>"
  have j: "join (s\<lparr>stopped := True\<rparr>) = Some (None, ?s')"
    using join_when_stopped[of "s\<lparr>stopped := True\<rparr>"] assms by simp
  have a: "process_events h (QUIT # evs) s = Some (Some SystemExit, ?s')"
    by (simp add: process_events.simps(2) j)
  have b: "stopped ?s'"
    by (cases "render_thread s") (simp_all add: rest_of_iteration_stopped emit_def)
  have c: "\<exists>calls. trace ?s' = trace s @ ThreadJoin # calls
                  \<and> count_list calls DisplayFlip \<le> 1
                  \<and> count_list calls (ClockTick 300) \<le> 1"
  proof (cases "render_thread s")
    case (Running p)
    obtain calls where "trace (snd (rest_of_iteration p ?s0)) = trace ?s0 @ calls"
       "count_list calls DisplayFlip \<le> 1" "count_list calls (ClockTick 300) \<le> 1"
      using rest_of_iteration_trace by blast
    then show ?thesis using Running by (simp add: emit_def)
  qed (simp_all add: emit_def)
  from a b c show ?thesis unfolding Let_def by blast
qed

theorem quit_sets_flag_joins_then_exits_witness:
  "render_thread running_app \<noteq> NotStarted
   \<and> (\<exists>s'. process_events no_hooks [QUIT] running_app = Some (Some SystemExit, s')
         \<and> stopped s' \<and> render_thread s' = Finished)"
proof -
  have h: "render_thread running_app \<noteq> NotStarted"
    by (simp add: running_app_def)
  from quit_sets_flag_joins_then_exits[OF h, of no_hooks "[]"] show ?thesis
    using h unfolding Let_def by (auto simp: running_app_def)
qed

text \<open>A quit event that arrives before the render thread was started: the join raises.\<close>

lemma quit_before_thread_start:
  "render_thread s = NotStarted \<Longrightarrow>
     process_events h (QUIT # evs) s = Some (Some RuntimeError, s\<lparr>stopped := True\<rparr>)"
  by (simp add: process_events.simps(2) join_def)

section \<open>Mouse events and other events\<close>

text \<open>
  C6. A mouse-button-down event calls \<^verbatim>\<open>process_mouse_event\<close> with \<open>True\<close>, a
  mouse-button-up event calls it with \<open>False\<close>; if the method raises, the exception
  leaves \<^verbatim>\<open>process_events\<close>, otherwise the loop goes on with the next event.
\<close>

theorem mouse_events_call_hook_with_flag:
  "process_events h (MOUSEBUTTONDOWN # evs) s =
     (case process_mouse_event h True s of
        (Some e, s1) \<Rightarrow> Some (Some e, s1)
      | (None, s1) \<Rightarrow> process_events h evs s1)
   \<and> process_events h (MOUSEBUTTONUP # evs) s =
     (case process_mouse_event h False s of
        (Some e, s1) \<Rightarrow> Some (Some e, s1)
      | (None, s1) \<Rightarrow> process_events h evs s1)"
  by (simp add: process_events.simps(2))

text \<open>
  C10. An event that is neither a quit nor a mouse-button event is passed over: alone
  it leaves the application as it was, whatever the three methods of the game are, and
  in front of other events it changes nothing in what they do.
\<close>

theorem other_events_are_passed_over:
  assumes "ev \<notin> {QUIT, MOUSEBUTTONUP, MOUSEBUTTONDOWN}"
  shows "process_events h [ev] s = Some (None, s)
       \<and> process_events h (ev # evs) s = process_events h evs s"
  using assms by (simp add: process_events.simps(2))

theorem other_events_are_passed_over_witness:
  "OtherEvent 2 \<notin> {QUIT, MOUSEBUTTONUP, MOUSEBUTTONDOWN}
   \<and> process_events no_hooks [OtherEvent 2] running_app = Some (None, running_app)
   \<and> process_events no_hooks [OtherEvent 2, QUIT] running_app
       = process_events no_hooks [QUIT] running_app"
proof -
  have h: "OtherEvent 2 \<notin> {QUIT, MOUSEBUTTONUP, MOUSEBUTTONDOWN}" by simp
  from other_events_are_passed_over[OF h, of no_hooks running_app "[QUIT]"] show ?thesis
    using h by blast
qed

text \<open>The events of the other types can be left out of any list of events.\<close>

lemma process_events_filter:
  "process_events h evs s =
     process_events h (filter (\<lambda>ev. ev \<in> {QUIT, MOUSEBUTTONUP, MOUSEBUTTONDOWN}) evs) s"
proof (induction evs arbitrary: s)
  case Nil
  show ?case by simp
next
  case (Cons ev evs)
  show ?case
  proof (cases "ev \<in> {QUIT, MOUSEBUTTONUP, MOUSEBUTTONDOWN}")
    case False
    then show ?thesis using Cons.IH[of s] by (simp add: process_events.simps(2))
  next
    case True
    then show ?thesis using Cons.IH
      by (auto simp: process_events.simps(2) split: prod.splits option.splits)
  qed
qed

section \<open>Construction\<close>

text \<open>
  C3. The settings file can be read and parses to a dictionary whose \<^verbatim>\<open>window\<close> entry
  is a dictionary with title \<open>T\<close>, background colour \<open>C\<close> and size \<open>[W, H]\<close>; the
  method \<^verbatim>\<open>load_game_settings_from_json\<close> of the game returns and leaves the three
  attributes as it found them. Then \<^verbatim>\<open>__init__\<close> completes, and the application has
  title \<open>T\<close>, background colour \<open>C\<close> and size \<open>[W, H]\<close>.
\<close>

theorem init_takes_window_fields:
  assumes "files path = Some src" and "json_load src = Inr (JObj doc)"
    and "doc ''window'' = Some (JObj win)"
    and "win ''title'' = Some T" and "win ''background_color'' = Some C"
    and "win ''size'' = Some (JArr [W, H])"
    and "load_game_settings_from_json h
           (s\<lparr>settings_json := JObj doc, title := T, background_color := C,
              size_attr := JArr [W, H]\<rparr>) = (None, s')"
    and "title s' = T" and "background_color s' = C" and "size_attr s' = JArr [W, H]"
  shows "\<exists>a. GameApp_init h files json_load path s = (None, a)
            \<and> title a = T \<and> background_color a = C \<and> size_attr a = JArr [W, H]"
  using assms
  by (simp add: GameApp_init_def load_json_def load_settings_from_json_def window_setting_def
        getitem_str_def emit_def Let_def)

theorem init_takes_window_fields_witness:
  "\<exists>a. GameApp_init no_hooks one_file (\<lambda>src. Inr (JObj sample_settings)) ''settings.json'' blank_app
          = (None, a)
      \<and> title a = JStr ''Cards''
      \<and> background_color a = JArr [JInt 0, JInt 128, JInt 0]
      \<and> size_attr a = JArr [JInt 800, JInt 600]"
proof -
  let ?s' = "blank_app\<lparr>settings_json := JObj sample_settings, title := JStr ''Cards'',
               background_color := JArr [JInt 0, JInt 128, JInt 0],
               size_attr := JArr [JInt 800, JInt 600]\<rparr>"
  have 1: "one_file ''settings.json'' = Some ''(text of settings.json)''"
    by (simp add: one_file_def)
  have 2: "(\<lambda>src::string. (Inr (JObj sample_settings) :: error + json)) ''(text of settings.json)''
             = Inr (JObj sample_settings)"
    by simp
  have 3: "sample_settings ''window'' = Some (JObj sample_window)"
    by (simp add: sample_settings_def)
  have 4: "sample_window ''title'' = Some (JStr ''Cards'')"
    by (simp add: sample_window_def)
  have 5: "sample_window ''background_color'' = Some (JArr [JInt 0, JInt 128, JInt 0])"
    by (simp add: sample_window_def)
  have 6: "sample_window ''size'' = Some (JArr [JInt 800, JInt 600])"
    by (simp add: sample_window_def)
  have 7: "load_game_settings_from_json no_hooks ?s' = (None, ?s')"
    by (simp add: no_hooks_def)
  have 8: "title ?s' = JStr ''Cards''" by simp
  have 9: "background_color ?s' = JArr [JInt 0, JInt 128, JInt 0]" by simp
  have 10: "size_attr ?s' = JArr [JInt 800, JInt 600]" by simp
  note t = init_takes_window_fields[where files = one_file and path = "''settings.json''"
      and src = "''(text of settings.json)''" and json_load = "\<lambda>src. Inr (JObj sample_settings)"
      and doc = sample_settings and win = sample_window and T = "JStr ''Cards''"
      and C = "JArr [JInt 0, JInt 128, JInt 0]" and W = "JInt 800" and H = "JInt 600"
      and h = no_hooks and s = blank_app and s' = "?s'"]
  from t[OF 1 2 3 4 5 6 7 8 9 10] show ?thesis .
qed

text \<open>
  C4. The settings file parses to a dictionary without the key \<^verbatim>\<open>window\<close>. Then
  \<^verbatim>\<open>__init__\<close> raises the \<^verbatim>\<open>KeyError\<close> of that key from the loading of the settings,
  with no call made to pygame: the calls made so far and the screen are what they were,
  no window has been opened.
\<close>

theorem init_fails_without_window_key:
  assumes "files path = Some src" and "json_load src = Inr (JObj doc)"
    and "doc ''window'' = None"
  shows "GameApp_init h files json_load path s =
           (Some (KeyError (JStr ''window'')),
            s\<lparr>title := JNull, background_color := JNull, size_attr := JNull,
              settings_json := JObj doc\<rparr>)"
  using assms
  by (simp add: GameApp_init_def load_json_def load_settings_from_json_def window_setting_def
        getitem_str_def Let_def)

theorem init_fails_without_window_key_witness:
  "settings_without_window ''window'' = None
   \<and> GameApp_init no_hooks one_file (\<lambda>src. Inr (JObj settings_without_window)) ''settings.json'' blank_app
       = (Some (KeyError (JStr ''window'')), blank_app\<lparr>settings_json := JObj settings_without_window\<rparr>)"
proof -
  have 1: "one_file ''settings.json'' = Some ''(text of settings.json)''"
    by (simp add: one_file_def)
  have 2: "(\<lambda>src::string. (Inr (JObj settings_without_window) :: error + json)) ''(text of settings.json)''
             = Inr (JObj settings_without_window)"
    by simp
  have 3: "settings_without_window ''window'' = None"
    by (simp add: settings_without_window_def)
  note t = init_fails_without_window_key[where files = one_file and path = "''settings.json''"
      and src = "''(text of settings.json)''"
      and json_load = "\<lambda>src. Inr (JObj settings_without_window)"
      and doc = settings_without_window and h = no_hooks and s = blank_app]
  from t[OF 1 2 3] show ?thesis
    using 3 by (simp add: blank_app_def)
qed

text \<open>
  C5. A settings file that parses to \<^verbatim>\<open>None\<close> makes \<^verbatim>\<open>__init__\<close> raise its own
  \<^verbatim>\<open>ValueError\<close>. A file that cannot be opened and a text that the parser rejects make
  \<^verbatim>\<open>load_json\<close> raise, and \<^verbatim>\<open>__init__\<close> lets that error through.
\<close>

theorem init_startup_failures:
  "(files path = Some src \<and> json_load src = Inr JNull \<longrightarrow>
      GameApp_init h files json_load path s =
        (Some (ValueError [''settings json file is not loaded'', ''GameApp.__init__'']),
         s\<lparr>title := JNull, background_color := JNull, size_attr := JNull, settings_json := JNull\<rparr>))
   \<and> (files path = None \<longrightarrow>
      load_json files json_load path = Inl IOError
      \<and> GameApp_init h files json_load path s =
        (Some IOError, s\<lparr>title := JNull, background_color := JNull, size_attr := JNull\<rparr>))
   \<and> (files path = Some src \<and> json_load src = Inl e \<longrightarrow>
      load_json files json_load path = Inl e
      \<and> GameApp_init h files json_load path s =
        (Some e, s\<lparr>title := JNull, background_color := JNull, size_attr := JNull\<rparr>))"
  by (simp add: GameApp_init_def load_json_def Let_def)

theorem init_startup_failures_witness:
  "GameApp_init no_hooks one_file (\<lambda>src. Inr JNull) ''settings.json'' blank_app
     = (Some (ValueError [''settings json file is not loaded'', ''GameApp.__init__'']), blank_app)
   \<and> GameApp_init no_hooks one_file (\<lambda>src. Inr JNull) ''missing.json'' blank_app
     = (Some IOError, blank_app)
   \<and> GameApp_init no_hooks one_file (\<lambda>src. Inl (ValueError [''No JSON object could be decoded''])) ''settings.json'' blank_app
     = (Some (ValueError [''No JSON object could be decoded'']), blank_app)"
proof -
  have 1: "one_file ''settings.json'' = Some ''(text of settings.json)''"
    by (simp add: one_file_def)
  have 2: "one_file ''missing.json'' = None"
    by (simp add: one_file_def)
  have b: "blank_app\<lparr>title := JNull, background_color := JNull, size_attr := JNull\<rparr> = blank_app"
          "blank_app\<lparr>title := JNull, background_color := JNull, size_attr := JNull, settings_json := JNull\<rparr> = blank_app"
    by (simp_all add: blank_app_def)
  show ?thesis
    using init_startup_failures[of one_file "''settings.json''" "''(text of settings.json)''"
            "\<lambda>src. Inr JNull" no_hooks blank_app IOError]
          init_startup_failures[of one_file "''missing.json''" "''(nothing)''"
            "\<lambda>src. Inr JNull" no_hooks blank_app IOError]
          init_startup_failures[of one_file "''settings.json''" "''(text of settings.json)''"
            "\<lambda>src. Inl (ValueError [''No JSON object could be decoded''])" no_hooks blank_app
            "ValueError [''No JSON object could be decoded'']"]
    by (simp add: 1 2 b blank_app_def)
qed

section \<open>The main loop and execute\<close>

text \<open>Whenever the main loop returns at all, it is by an exception.\<close>

lemma run_game_loop_raises:
  "run_game_loop h events n s = Some r \<Longrightarrow> fst r \<noteq> None"
proof (induction rule: run_game_loop.raw_induct [rotated, consumes 1, case_names 1])
  case (1 loop h events n s r)
  show ?case
  proof (cases "process_events h (events n) (emit [ClockTick 60] s)")
    case None
    with 1(2) show ?thesis by simp
  next
    case (Some o1)
    obtain r1 s1 where o1: "o1 = (r1, s1)" by (cases o1)
    show ?thesis
    proof (cases r1)
      case (Some e)
      with 1(2) \<open>process_events h (events n) (emit [ClockTick 60] s) = Some o1\<close> o1
      show ?thesis by auto
    next
      case None
      obtain r2 s2 where o2: "execute_game_logic s1 = (r2, s2)"
        by (cases "execute_game_logic s1")
      show ?thesis
      proof (cases r2)
        case (Some e)
        with 1(2) \<open>process_events h (events n) (emit [ClockTick 60] s) = Some o1\<close> o1 None o2
        show ?thesis by auto
      next
        case n2: None
        with 1(2) \<open>process_events h (events n) (emit [ClockTick 60] s) = Some o1\<close> o1 None o2
        have "loop h events (Suc n) s2 = Some r" by simp
        then show ?thesis by (rule 1(1))
      qed
    qed
  qed
qed

text \<open>
  C9. \<^verbatim>\<open>execute\<close> is \<^verbatim>\<open>init_game\<close>, then \<^verbatim>\<open>start_render_thread\<close>, then
  \<^verbatim>\<open>run_game_loop\<close>, each reached only if the one before completed;
  \<^verbatim>\<open>init_game\<close> builds the GUI interface from the \<^verbatim>\<open>gui\<close> entry of the settings and
  hands over to \<^verbatim>\<open>build_game_objects\<close> of the game; and neither the main loop nor
  \<^verbatim>\<open>execute\<close> ever completes normally.
\<close>

theorem execute_chains_the_three:
  "execute h events s =
     (case init_game h s of
        (Some e, s1) \<Rightarrow> Some (Some e, s1)
      | (None, s1) \<Rightarrow>
         (case start_render_thread s1 of
            (Some e, s2) \<Rightarrow> Some (Some e, s2)
          | (None, s2) \<Rightarrow> run_game_loop h events 0 s2))
   \<and> init_game h s =
     (case getitem_str (settings_json s) ''gui'' of
        Inl e \<Rightarrow> (Some e, s)
      | Inr g \<Rightarrow> build_game_objects h
                  (s\<lparr>gui_interface := Some \<lparr>gui_json = g, gui_screen = screen s, gui_list = []\<rparr>\<rparr>))
   \<and> run_game_loop h events n s \<noteq> Some (None, s')
   \<and> execute h events s \<noteq> Some (None, s')"
proof -
  have loop: "run_game_loop h events k u \<noteq> Some (None, s')" for k u
    using run_game_loop_raises[of h events k u "(None, s')"] by auto
  have a: "init_game h s =
     (case getitem_str (settings_json s) ''gui'' of
        Inl e \<Rightarrow> (Some e, s)
      | Inr g \<Rightarrow> build_game_objects h
                  (s\<lparr>gui_interface := Some \<lparr>gui_json = g, gui_screen = screen s, gui_list = []\<rparr>\<rparr>))"
    by (simp add: init_game_def init_gui_def split: sum.splits)
  have b: "execute h events s \<noteq> Some (None, s')"
    using loop by (auto simp: execute_def split: prod.splits option.splits)
  show ?thesis using a b loop by (simp add: execute_def)
qed

text \<open>
  A run that does end: a mouse click in the first round of the main loop, the quit event
  in the second.
\<close>

lemma execute_until_quit:
  "execute no_hooks (\<lambda>n. if n = 0 then [MOUSEBUTTONDOWN] else [QUIT]) constructed_app
     = Some (Some SystemExit,
         constructed_app\<lparr>stopped := True, render_thread := Finished,
           gui_interface := Some \<lparr>gui_json = JObj Map.empty,
                                    gui_screen = Some (Surface (JArr [JInt 800, JInt 600])),
                                    gui_list = []\<rparr>,
           trace := [ThreadStart, ClockTick 60, ClockTick 60, ThreadJoin]\<rparr>)"
  apply (simp add: execute_def init_game_def init_gui_def getitem_str_def constructed_app_def
      blank_app_def sample_settings_def no_hooks_def start_render_thread_def emit_def)
  apply (subst run_game_loop.simps)
  apply (simp add: process_events.simps(2) emit_def execute_game_logic_def)
  apply (subst run_game_loop.simps)
  apply (simp add: process_events.simps(2) emit_def join_def rest_of_iteration_def)
  apply (subst RenderThread_run.simps)
  apply simp
  done

end
